theory Spec2Isabelle
  imports Main "HOL-Library.Word"
begin

section \<open>Go strings: the library calls of the source layer\<close>

text \<open>
  A Go \<^verbatim>\<open>string\<close> is a byte sequence, modelled as \<^typ>\<open>string\<close>. The three calls of
  package \<^verbatim>\<open>strings\<close> the source layer makes are written out as the library
  computes them.
\<close>

definition HasSuffix :: "string \<Rightarrow> string \<Rightarrow> bool" where
  "HasSuffix s suffix =
     (length suffix \<le> length s \<and> drop (length s - length suffix) s = suffix)"

definition TrimSuffix :: "string \<Rightarrow> string \<Rightarrow> string" where
  "TrimSuffix s suffix =
     (if HasSuffix s suffix then take (length s - length suffix) s else s)"

text \<open>\<^verbatim>\<open>strings.Replace(s, " ", "", -1)\<close>: every space is removed.\<close>

definition Replace_spaces :: "string \<Rightarrow> string" where
  "Replace_spaces s = filter (\<lambda>c. c \<noteq> CHR '' '') s"

text \<open>\<^verbatim>\<open>strings.Split(s, ",")\<close>: the pieces between the commas, one more than
  there are commas (the empty string splits into one empty piece).\<close>

fun Split_comma :: "string \<Rightarrow> string list" where
  "Split_comma [] = [[]]"
| "Split_comma (c # cs) =
     (if c = CHR '','' then [] # Split_comma cs
      else (case Split_comma cs of
              [] \<Rightarrow> [[c]]
            | piece # pieces \<Rightarrow> (c # piece) # pieces))"


section \<open>Package net: addresses\<close>

text \<open>
  \<^verbatim>\<open>net.IP\<close> is a byte slice. \<^verbatim>\<open>To4\<close> and \<^verbatim>\<open>To16\<close> are the Go standard library's
  methods, written out as the library computes them; a \<^verbatim>\<open>nil\<close> result is \<^const>\<open>None\<close>.
\<close>

type_synonym byte = "8 word"
type_synonym IP = "byte list"

definition IPv4len :: nat where
  "IPv4len = 4"

definition IPv6len :: nat where
  "IPv6len = 16"

definition isZeros :: "IP \<Rightarrow> bool" where
  "isZeros p = list_all (\<lambda>b. b = 0) p"

definition IPv4 :: "byte \<Rightarrow> byte \<Rightarrow> byte \<Rightarrow> byte \<Rightarrow> IP" where
  "IPv4 a b c d = replicate 10 0 @ [0xff, 0xff, a, b, c, d]"

definition To4 :: "IP \<Rightarrow> IP option" where
  "To4 ip =
     (if length ip = IPv4len then Some ip
      else if length ip = IPv6len \<and> isZeros (take 10 ip) \<and> ip ! 10 = 0xff \<and> ip ! 11 = 0xff
        then Some (take 4 (drop 12 ip))
      else None)"

definition To16 :: "IP \<Rightarrow> IP option" where
  "To16 ip =
     (if length ip = IPv4len then Some (IPv4 (ip ! 0) (ip ! 1) (ip ! 2) (ip ! 3))
      else if length ip = IPv6len then Some ip
      else None)"

text \<open>
  \<^verbatim>\<open>net.ParseIP\<close> reads the text of an address. The parser itself is the standard
  library's and stays a parameter \<open>parseIP\<close>, of the type of the library's internal
  \<^verbatim>\<open>parseIP(s string) ([16]byte, bool)\<close>: a failed parse is \<^const>\<open>None\<close>, and a parsed
  address is an array of sixteen bytes, here a function on the indices \<open>0..15\<close>.
  \<^verbatim>\<open>ParseIP\<close> returns the slice of that array (an IPv4 address in its IPv4-mapped
  form), or \<^verbatim>\<open>nil\<close>.
\<close>

type_synonym addr16 = "nat \<Rightarrow> byte"

definition slice16 :: "addr16 \<Rightarrow> IP" where
  "slice16 addr = map addr [0..<16]"

definition ParseIP :: "(string \<Rightarrow> addr16 option) \<Rightarrow> string \<Rightarrow> IP option" where
  "ParseIP parseIP s = (case parseIP s of Some addr \<Rightarrow> Some (slice16 addr) | None \<Rightarrow> None)"

section \<open>Endpoints\<close>

text \<open>
  \<^verbatim>\<open>endpoint.Endpoint\<close>, with the fields the source layer and the provider tests set.
  \<^verbatim>\<open>endpoint.TTL\<close> is a 64-bit integer that is only stored and compared, never
  computed with, so it is an \<^typ>\<open>int\<close>; a struct literal that leaves \<open>RecordTTL\<close> out
  holds Go's zero value \<open>0\<close>. \<open>ProviderSpecific\<close> is a slice of name/value properties,
  and the map \<open>Labels\<close> is the list of its entries, each key once.
\<close>

type_synonym Targets = "string list"
type_synonym TTL = int
type_synonym ProviderSpecific = "(string \<times> string) list"
type_synonym Labels = "(string \<times> string) list"

record Endpoint =
  DNSName :: string
  Targets :: Targets
  RecordType :: string
  SetIdentifier :: string
  RecordTTL :: TTL
  Labels :: Labels
  ProviderSpecific :: ProviderSpecific

text \<open>Modelled from the spec: the record type names of package \<^verbatim>\<open>endpoint\<close>, which is
  not among the sources (``record type (A, AAAA, CNAME, TXT, ...)'').\<close>

definition RecordTypeA :: string where
  "RecordTypeA = ''A''"

definition RecordTypeAAAA :: string where
  "RecordTypeAAAA = ''AAAA''"

definition RecordTypeCNAME :: string where
  "RecordTypeCNAME = ''CNAME''"

section \<open>The source layer\<close>

subsection \<open>Targets of the target annotation\<close>

text \<open>The loop of \<^verbatim>\<open>getTargetsFromTargetAnnotation\<close>: each piece loses its trailing
  period and is appended to the targets collected so far.\<close>

fun appendTrimmed :: "Targets \<Rightarrow> string list \<Rightarrow> Targets" where
  "appendTrimmed targets [] = targets"
| "appendTrimmed targets (targetHostname # targetsList) =
     appendTrimmed (targets @ [TrimSuffix targetHostname ''.'']) targetsList"

text \<open>The annotation key is a constant of package \<^verbatim>\<open>annotations\<close>, which is not among
  the sources: it is a parameter.\<close>

definition getTargetsFromTargetAnnotation :: "string \<Rightarrow> (string \<rightharpoonup> string) \<Rightarrow> Targets" where
  "getTargetsFromTargetAnnotation targetAnnotationKey annotations =
     (case annotations targetAnnotationKey of
        Some targetAnnotation \<Rightarrow>
          if targetAnnotation \<noteq> [] then
            appendTrimmed [] (Split_comma (Replace_spaces targetAnnotation))
          else []
      | None \<Rightarrow> [])"

subsection \<open>The record type of a target\<close>

definition suitableType :: "(string \<Rightarrow> addr16 option) \<Rightarrow> string \<Rightarrow> string" where
  "suitableType parseIP target =
     (if ParseIP parseIP target \<noteq> None \<and> To4 (the (ParseIP parseIP target)) \<noteq> None
        then RecordTypeA
      else if ParseIP parseIP target \<noteq> None \<and> To16 (the (ParseIP parseIP target)) \<noteq> None
        then RecordTypeAAAA
      else RecordTypeCNAME)"

subsection \<open>Endpoints of a hostname\<close>

text \<open>
  The loop of \<^verbatim>\<open>endpointsForHostname\<close> over the targets, with its three accumulators
  \<open>aTargets\<close>, \<open>aaaaTargets\<close> and \<open>cnameTargets\<close>; \<^verbatim>\<open>continue\<close> goes on with the
  accumulators unchanged. \<^verbatim>\<open>isIPv6String\<close> is a helper of the package that is not among
  the sources: it is a parameter.
\<close>

fun sortTargets ::
  "(string \<Rightarrow> addr16 option) \<Rightarrow> (string \<Rightarrow> bool) \<Rightarrow> Targets \<Rightarrow>
   Targets \<times> Targets \<times> Targets \<Rightarrow> Targets \<times> Targets \<times> Targets" where
  "sortTargets parseIP isIPv6String [] acc = acc"
| "sortTargets parseIP isIPv6String (t # targets) (aTargets, aaaaTargets, cnameTargets) =
     (if suitableType parseIP t = RecordTypeA then
        (if isIPv6String t
           then sortTargets parseIP isIPv6String targets (aTargets, aaaaTargets, cnameTargets)
           else sortTargets parseIP isIPv6String targets (aTargets @ [t], aaaaTargets, cnameTargets))
      else if suitableType parseIP t = RecordTypeAAAA then
        (if \<not> isIPv6String t
           then sortTargets parseIP isIPv6String targets (aTargets, aaaaTargets, cnameTargets)
           else sortTargets parseIP isIPv6String targets (aTargets, aaaaTargets @ [t], cnameTargets))
      else sortTargets parseIP isIPv6String targets (aTargets, aaaaTargets, cnameTargets @ [t]))"

text \<open>\<^verbatim>\<open>endpoint.NewLabels()\<close> is a constructor of package \<^verbatim>\<open>endpoint\<close>: the parameter
  \<open>NewLabels\<close>.\<close>

definition endpointsForHostname ::
  "(string \<Rightarrow> addr16 option) \<Rightarrow> (string \<Rightarrow> bool) \<Rightarrow> Labels \<Rightarrow>
   string \<Rightarrow> Targets \<Rightarrow> TTL \<Rightarrow> ProviderSpecific \<Rightarrow> string \<Rightarrow> Endpoint list" where
  "endpointsForHostname parseIP isIPv6String NewLabels hostname targets ttl providerSpecific setIdentifier =
     (case sortTargets parseIP isIPv6String targets ([], [], []) of
        (aTargets, aaaaTargets, cnameTargets) \<Rightarrow>
          (if 0 < length aTargets then
             [\<lparr>DNSName = TrimSuffix hostname ''.'',
               Targets = aTargets,
               RecordType = RecordTypeA,
               SetIdentifier = setIdentifier,
               RecordTTL = ttl,
               Labels = NewLabels,
               ProviderSpecific = providerSpecific\<rparr>]
           else []) @
          (if 0 < length aaaaTargets then
             [\<lparr>DNSName = TrimSuffix hostname ''.'',
               Targets = aaaaTargets,
               RecordType = RecordTypeAAAA,
               SetIdentifier = setIdentifier,
               RecordTTL = ttl,
               Labels = NewLabels,
               ProviderSpecific = providerSpecific\<rparr>]
           else []) @
          (if 0 < length cnameTargets then
             [\<lparr>DNSName = TrimSuffix hostname ''.'',
               Targets = cnameTargets,
               RecordType = RecordTypeCNAME,
               SetIdentifier = setIdentifier,
               RecordTTL = ttl,
               Labels = NewLabels,
               ProviderSpecific = providerSpecific\<rparr>]
           else []))"


section \<open>The controller: start-up (controller/execute.go)\<close>

text \<open>
  A Go \<^verbatim>\<open>error\<close> is its message. A call of the start-up code either returns a value,
  ends the process through \<^verbatim>\<open>log.Fatal\<close> or \<^verbatim>\<open>log.Fatalf\<close> (with the message logged),
  or dereferences a \<^verbatim>\<open>nil\<close> pointer.
\<close>

type_synonym error = string

datatype 'a run = Returns 'a | Fatal error | NilDereference

text \<open>Modelled from the spec: the table \<^verbatim>\<open>plan.Policies\<close> of package \<^verbatim>\<open>plan\<close>, which is not
  among the sources: ``\<open>Policy \<in> {sync, upsert-only, create-only}\<close>'', the three named
  variants of the policy.\<close>

datatype policy = SyncPolicy | UpsertOnlyPolicy | CreateOnlyPolicy

definition Policies :: "string \<rightharpoonup> policy" where
  "Policies =
     [''sync'' \<mapsto> SyncPolicy, ''upsert-only'' \<mapsto> UpsertOnlyPolicy,
      ''create-only'' \<mapsto> CreateOnlyPolicy]"

text \<open>The values the start-up code builds with constructors of packages that are not
  among the sources are the constructor calls themselves: the domain filter, and the
  source that \<^verbatim>\<open>buildSource\<close> wraps around the sources of \<^verbatim>\<open>source.ByNames\<close> (the
  constructors' further arguments are fields of the configuration).\<close>

datatype domainFilter =
    NewRegexDomainFilter string "string option"
  | NewDomainFilterWithExclusions "string list" "string list"

datatype 's source =
    NewMultiSource "'s list"
  | NewDedupSource "'s source"
  | NewNAT64Source "'s source"
  | NewTargetFilterSource "'s source"

text \<open>\<^verbatim>\<open>Controller\<close>, as \<^verbatim>\<open>buildController\<close> fills it. A duration is its number of
  nanoseconds.\<close>

record ('s, 'r) Controller =
  Source :: "'s source"
  Registry :: "'r option"
  Policy :: policy
  Interval :: int
  DomainFilter :: domainFilter
  ManagedRecordTypes :: "string list"
  ExcludeRecordTypes :: "string list"
  MinEventSyncInterval :: int

text \<open>\<^verbatim>\<open>externaldns.Config\<close>: the fields that decide the control flow of the start-up
  code or that it copies. The record is extensible: the provider and registry
  constructors read many more fields, and receive the whole configuration.\<close>

record Config =
  Provider :: string
  Registry :: string
  Policy :: string
  ProviderCacheTime :: int
  OCIAuthInstancePrincipal :: bool
  OCICompartmentOCID :: string
  OCIConfigFile :: string
  OCIZoneCacheDuration :: int
  TXTOwnerID :: string
  WebhookServer :: bool
  Once :: bool
  UpdateEvents :: bool
  RequestTimeout :: int
  LogLevel :: string
  Interval :: int
  MinEventSyncInterval :: int
  ManagedDNSRecordTypes :: "string list"
  ExcludeDNSRecordTypes :: "string list"
  RegexDomainFilter :: "string option"
  RegexDomainExclusion :: "string option"
  DomainFilter :: "string list"
  ExcludeDomains :: "string list"

text \<open>The provider constructors that \<^verbatim>\<open>buildProvider\<close> calls with fields of the
  configuration and the domain filter only.\<close>

datatype constructor =
    NewAkamaiProvider | NewAlibabaCloudProvider | NewAWSProvider | NewAWSSDProvider
  | NewAzureProvider | NewAzurePrivateDNSProvider | NewCivoProvider | NewCloudFlareProvider
  | NewGoogleProvider | NewDigitalOceanProvider | NewOVHProvider | NewLinodeProvider
  | NewDnsimpleProvider | NewCoreDNSProvider | NewExoscaleProvider | NewPDNSProvider
  | NewRfc2136Provider | NewNS1Provider | NewTransIPProvider | NewScalewayProvider
  | NewGoDaddyProvider | NewGandiProvider | NewPiholeProvider | NewPluralProvider
  | NewWebhookProvider

text \<open>
  What the start-up code calls outside this file: flag parsing and validation, the log
  level parser, the sources, the provider and registry constructors, and one
  reconciliation. A Go result pair \<open>(value, err)\<close> is a pair of options where the caller
  tests both, and a sum where it reads the value only if \<open>err\<close> is \<^verbatim>\<open>nil\<close>. \<open>'p\<close> is the
  type of providers, \<open>'r\<close> of registries, \<open>'s\<close> of sources and \<open>'o\<close> of OCI configurations.
\<close>

record ('z, 'p, 'r, 's, 'o) externals =
  ParseFlags :: "string list \<Rightarrow> error + 'z Config_scheme"
  ValidateConfig :: "'z Config_scheme \<Rightarrow> error option"
  ParseLevel :: "string \<Rightarrow> error option"
  ByNames :: "int \<Rightarrow> 'z Config_scheme \<Rightarrow> error + 's list"
  construct :: "constructor \<Rightarrow> 'z Config_scheme \<Rightarrow> domainFilter \<Rightarrow> 'p option \<times> error option"
  NewInMemoryProvider :: "'z Config_scheme \<Rightarrow> domainFilter \<Rightarrow> 'p"
  LoadOCIConfig :: "string \<Rightarrow> 'o option \<times> error option"
  InstancePrincipalConfig :: "string \<Rightarrow> 'o"
  setZoneCacheDuration :: "'o \<Rightarrow> int \<Rightarrow> 'o"
  NewOCIProvider :: "'o \<Rightarrow> 'z Config_scheme \<Rightarrow> domainFilter \<Rightarrow> 'p option \<times> error option"
  NewCachedProvider :: "'p \<Rightarrow> int \<Rightarrow> 'p"
  NewDynamoDBRegistry :: "'p option \<Rightarrow> 'z Config_scheme \<Rightarrow> 'r option \<times> error option"
  NewNoopRegistry :: "'p option \<Rightarrow> 'r option \<times> error option"
  NewTXTRegistry :: "'p option \<Rightarrow> 'z Config_scheme \<Rightarrow> 'r option \<times> error option"
  NewAWSSDRegistry :: "'p option \<Rightarrow> string \<Rightarrow> 'r option \<times> error option"
  RunOnce :: "('s, 'r) Controller \<Rightarrow> error option"

subsection \<open>buildProvider\<close>

text \<open>The cases of the \<^verbatim>\<open>switch cfg.Provider\<close> that only call a constructor.\<close>

definition plainProviders :: "(string \<times> constructor) list" where
  "plainProviders =
     [(''akamai'', NewAkamaiProvider), (''alibabacloud'', NewAlibabaCloudProvider),
      (''aws'', NewAWSProvider),
      (''azure-dns'', NewAzureProvider), (''azure'', NewAzureProvider),
      (''azure-private-dns'', NewAzurePrivateDNSProvider), (''civo'', NewCivoProvider),
      (''cloudflare'', NewCloudFlareProvider), (''google'', NewGoogleProvider),
      (''digitalocean'', NewDigitalOceanProvider), (''ovh'', NewOVHProvider),
      (''linode'', NewLinodeProvider), (''dnsimple'', NewDnsimpleProvider),
      (''coredns'', NewCoreDNSProvider), (''skydns'', NewCoreDNSProvider),
      (''exoscale'', NewExoscaleProvider), (''pdns'', NewPDNSProvider),
      (''rfc2136'', NewRfc2136Provider), (''ns1'', NewNS1Provider),
      (''transip'', NewTransIPProvider), (''scaleway'', NewScalewayProvider),
      (''godaddy'', NewGoDaddyProvider), (''gandi'', NewGandiProvider),
      (''pihole'', NewPiholeProvider), (''plural'', NewPluralProvider),
      (''webhook'', NewWebhookProvider)]"

text \<open>
  The \<^verbatim>\<open>switch\<close>. \<open>cfg\<close> is a pointer in the source, so the assignment to
  \<^verbatim>\<open>cfg.Registry\<close> in the case \<^verbatim>\<open>"aws-sd"\<close> is seen by the caller: the configuration is
  returned with the provider and the error. In the case \<^verbatim>\<open>"oci"\<close> the assignment
  \<^verbatim>\<open>config.ZoneCacheDuration = ...\<close> dereferences \<open>config\<close> whether or not it was set.
\<close>

definition providerSwitch ::
  "('z, 'p, 'r, 's, 'o) externals \<Rightarrow> 'z Config_scheme \<Rightarrow> domainFilter \<Rightarrow>
   ('z Config_scheme \<times> 'p option \<times> error option) run" where
  "providerSwitch ext cfg domainFilter =
     (if Provider cfg = ''aws-sd'' then
        (let cfg' = (if Registry cfg \<noteq> ''noop'' \<and> Registry cfg \<noteq> ''aws-sd''
                     then cfg\<lparr>Registry := ''aws-sd''\<rparr> else cfg)
         in Returns (cfg', construct ext NewAWSSDProvider cfg' domainFilter))
      else if Provider cfg = ''inmemory'' then
        Returns (cfg, Some (NewInMemoryProvider ext cfg domainFilter), None)
      else if Provider cfg = ''oci'' then
        (case (if OCIAuthInstancePrincipal cfg then
                 (if length (OCICompartmentOCID cfg) = 0 then
                    (None,
                     Some ''instance principal authentication requested, but no compartment OCID provided'')
                  else (Some (InstancePrincipalConfig ext (OCICompartmentOCID cfg)), None))
               else LoadOCIConfig ext (OCIConfigFile cfg)) of
           (None, err) \<Rightarrow> NilDereference
         | (Some config, Some err) \<Rightarrow> Returns (cfg, None, Some err)
         | (Some config, None) \<Rightarrow>
             Returns (cfg, NewOCIProvider ext
               (setZoneCacheDuration ext config (OCIZoneCacheDuration cfg)) cfg domainFilter))
      else
        (case map_of plainProviders (Provider cfg) of
           Some new \<Rightarrow> Returns (cfg, construct ext new cfg domainFilter)
         | None \<Rightarrow> Returns (cfg, None, Some (''unknown dns provider: '' @ Provider cfg))))"

definition buildProvider ::
  "('z, 'p, 'r, 's, 'o) externals \<Rightarrow> 'z Config_scheme \<Rightarrow> domainFilter \<Rightarrow>
   ('z Config_scheme \<times> 'p option \<times> error option) run" where
  "buildProvider ext cfg domainFilter =
     (case providerSwitch ext cfg domainFilter of
        Returns (cfg', Some p, err) \<Rightarrow>
          if 0 < ProviderCacheTime cfg'
          then Returns (cfg', Some (NewCachedProvider ext p (ProviderCacheTime cfg')), err)
          else Returns (cfg', Some p, err)
      | Returns (cfg', None, err) \<Rightarrow> Returns (cfg', None, err)
      | Fatal msg \<Rightarrow> Fatal msg
      | NilDereference \<Rightarrow> NilDereference)"

subsection \<open>selectRegistry and buildController\<close>

definition selectRegistry ::
  "('z, 'p, 'r, 's, 'o) externals \<Rightarrow> 'z Config_scheme \<Rightarrow> 'p option \<Rightarrow>
   ('r option \<times> error option) run" where
  "selectRegistry ext cfg p =
     (if Registry cfg = ''dynamodb'' then Returns (NewDynamoDBRegistry ext p cfg)
      else if Registry cfg = ''noop'' then Returns (NewNoopRegistry ext p)
      else if Registry cfg = ''txt'' then Returns (NewTXTRegistry ext p cfg)
      else if Registry cfg = ''aws-sd'' then Returns (NewAWSSDRegistry ext p (TXTOwnerID cfg))
      else Fatal (''unknown registry: '' @ Registry cfg))"

definition buildController ::
  "('z, 'p, 'r, 's, 'o) externals \<Rightarrow> 'z Config_scheme \<Rightarrow> 's source \<Rightarrow> 'p option \<Rightarrow>
   domainFilter \<Rightarrow> (error + ('s, 'r) Controller) run" where
  "buildController ext cfg src p filter' =
     (case Policies (Policy cfg) of
        None \<Rightarrow> Returns (Inl (''unknown policy: '' @ Policy cfg))
      | Some policy \<Rightarrow>
          (case selectRegistry ext cfg p of
             Returns (reg, Some err) \<Rightarrow> Returns (Inl err)
           | Returns (reg, None) \<Rightarrow>
               Returns (Inr \<lparr>Source = src, Registry = reg, Policy = policy,
                 Interval = Interval cfg, DomainFilter = filter',
                 ManagedRecordTypes = ManagedDNSRecordTypes cfg,
                 ExcludeRecordTypes = ExcludeDNSRecordTypes cfg,
                 MinEventSyncInterval = MinEventSyncInterval cfg\<rparr>)
           | Fatal msg \<Rightarrow> Fatal msg
           | NilDereference \<Rightarrow> NilDereference))"

subsection \<open>configureLogger, buildSource and createDomainFilter\<close>

definition configureLogger :: "('z, 'p, 'r, 's, 'o) externals \<Rightarrow> 'z Config_scheme \<Rightarrow> unit run" where
  "configureLogger ext cfg =
     (case ParseLevel ext (LogLevel cfg) of
        Some err \<Rightarrow> Fatal (''failed to parse log level: '' @ err)
      | None \<Rightarrow> Returns ())"

definition buildSource ::
  "('z, 'p, 'r, 's, 'o) externals \<Rightarrow> 'z Config_scheme \<Rightarrow> error + 's source" where
  "buildSource ext cfg =
     (case ByNames ext (if UpdateEvents cfg then 0 else RequestTimeout cfg) cfg of
        Inl err \<Rightarrow> Inl err
      | Inr sources \<Rightarrow>
          Inr (NewTargetFilterSource (NewNAT64Source (NewDedupSource (NewMultiSource sources)))))"

definition createDomainFilter :: "'z Config_scheme \<Rightarrow> domainFilter" where
  "createDomainFilter cfg =
     (case RegexDomainFilter cfg of
        Some regex \<Rightarrow>
          if regex \<noteq> [] then NewRegexDomainFilter regex (RegexDomainExclusion cfg)
          else NewDomainFilterWithExclusions (DomainFilter cfg) (ExcludeDomains cfg)
      | None \<Rightarrow> NewDomainFilterWithExclusions (DomainFilter cfg) (ExcludeDomains cfg))"

subsection \<open>Execute\<close>

text \<open>
  How \<^verbatim>\<open>Execute\<close> ends when it returns or exits with status 0: after serving the webhook
  API, after one reconciliation (\<^verbatim>\<open>--once\<close>), or after the loop \<^verbatim>\<open>ctrl.Run\<close>, entered with
  the controller built and, under \<^verbatim>\<open>UpdateEvents\<close>, with the event handler added to the
  source. The metrics server and the signal handler run beside it and are not modelled.
\<close>

datatype ('s, 'r) ending =
    ServedWebhook
  | RanOnce
  | RanLoop "('s, 'r) Controller" bool

text \<open>\<^verbatim>\<open>Execute\<close> up to the provider: what it has in hand when it goes on to build the
  controller is the configuration (as \<^verbatim>\<open>buildProvider\<close> left it), the source, the
  provider and the domain filter.\<close>

definition startup ::
  "('z, 'p, 'r, 's, 'o) externals \<Rightarrow> string list \<Rightarrow>
   (('s, 'r) ending + 'z Config_scheme \<times> 's source \<times> 'p option \<times> domainFilter) run" where
  "startup ext args =
     (case ParseFlags ext args of
        Inl err \<Rightarrow> Fatal (''flag parsing error: '' @ err)
      | Inr cfg \<Rightarrow>
     (case ValidateConfig ext cfg of
        Some err \<Rightarrow> Fatal (''config validation failed: '' @ err)
      | None \<Rightarrow>
     (case configureLogger ext cfg of
        Fatal msg \<Rightarrow> Fatal msg
      | NilDereference \<Rightarrow> NilDereference
      | Returns _ \<Rightarrow>
     (case buildSource ext cfg of
        Inl err \<Rightarrow> Fatal err
      | Inr endpointsSource \<Rightarrow>
     (case buildProvider ext cfg (createDomainFilter cfg) of
        Fatal msg \<Rightarrow> Fatal msg
      | NilDereference \<Rightarrow> NilDereference
      | Returns (cfg', prvdr, Some err) \<Rightarrow> Fatal err
      | Returns (cfg', prvdr, None) \<Rightarrow>
          if WebhookServer cfg' then Returns (Inl ServedWebhook)
          else Returns (Inr (cfg', endpointsSource, prvdr, createDomainFilter cfg)))))))"

definition Execute ::
  "('z, 'p, 'r, 's, 'o) externals \<Rightarrow> string list \<Rightarrow> ('s, 'r) ending run" where
  "Execute ext args =
     (case startup ext args of
        Fatal msg \<Rightarrow> Fatal msg
      | NilDereference \<Rightarrow> NilDereference
      | Returns (Inl ended) \<Rightarrow> Returns ended
      | Returns (Inr (cfg, endpointsSource, prvdr, domainFilter)) \<Rightarrow>
     (case buildController ext cfg endpointsSource prvdr domainFilter of
        Fatal msg \<Rightarrow> Fatal msg
      | NilDereference \<Rightarrow> NilDereference
      | Returns (Inl err) \<Rightarrow> Fatal err
      | Returns (Inr ctrl) \<Rightarrow>
          if Once cfg then
            (case RunOnce ext ctrl of
               Some err \<Rightarrow> Fatal err
             | None \<Rightarrow> Returns RanOnce)
          else Returns (RanLoop ctrl (UpdateEvents cfg))))"

section \<open>Event handlers of the source layer\<close>

text \<open>
  \<^verbatim>\<open>type eventHandlerFunc func()\<close>. A Go function with no argument and no result can only
  act on the state of the program: it is a function on that state, of type \<open>'w\<close>. So
  that calls can be counted, a call of the wrapped function is written \<open>call\<close>: it runs
  the function on the state and adds one to a counter of its calls that is carried with
  the state.
\<close>

type_synonym 'w eventHandlerFunc = "'w \<Rightarrow> 'w"

definition call :: "'w eventHandlerFunc \<Rightarrow> nat \<times> 'w \<Rightarrow> nat \<times> 'w" where
  "call fn st = (Suc (fst st), fn (snd st))"

definition OnAdd :: "'w eventHandlerFunc \<Rightarrow> 'obj \<Rightarrow> bool \<Rightarrow> nat \<times> 'w \<Rightarrow> nat \<times> 'w" where
  "OnAdd fn obj isInInitialList = call fn"

definition OnUpdate :: "'w eventHandlerFunc \<Rightarrow> 'obj \<Rightarrow> 'obj \<Rightarrow> nat \<times> 'w \<Rightarrow> nat \<times> 'w" where
  "OnUpdate fn oldObj newObj = call fn"

definition OnDelete :: "'w eventHandlerFunc \<Rightarrow> 'obj \<Rightarrow> nat \<times> 'w \<Rightarrow> nat \<times> 'w" where
  "OnDelete fn obj = call fn"

text \<open>A change that an informer observes, and the method of the handler it calls for
  it; an object of the initial list arrives as an addition with \<open>isInInitialList\<close> set.\<close>

datatype 'obj event = Added 'obj bool | Updated 'obj 'obj | Deleted 'obj

definition notify :: "'w eventHandlerFunc \<Rightarrow> 'obj event \<Rightarrow> nat \<times> 'w \<Rightarrow> nat \<times> 'w" where
  "notify fn ev =
     (case ev of
        Added obj isInInitialList \<Rightarrow> OnAdd fn obj isInInitialList
      | Updated oldObj newObj \<Rightarrow> OnUpdate fn oldObj newObj
      | Deleted obj \<Rightarrow> OnDelete fn obj)"

section \<open>Values for the examples\<close>

text \<open>A configuration, and externals under which every call outside the start-up code
  succeeds; the flags parse to the configuration given.\<close>

definition example_cfg :: Config where
  "example_cfg =
     \<lparr>Provider = ''aws-sd'', Registry = ''txt'', Policy = ''sync'', ProviderCacheTime = 0,
      OCIAuthInstancePrincipal = False, OCICompartmentOCID = [], OCIConfigFile = [],
      OCIZoneCacheDuration = 0, TXTOwnerID = ''default'', WebhookServer = False,
      Once = False, UpdateEvents = True, RequestTimeout = 30000000000, LogLevel = ''info'',
      Interval = 60000000000, MinEventSyncInterval = 5000000000,
      ManagedDNSRecordTypes = [''A'', ''AAAA'', ''CNAME''], ExcludeDNSRecordTypes = [],
      RegexDomainFilter = None, RegexDomainExclusion = None, DomainFilter = [],
      ExcludeDomains = []\<rparr>"

definition example_externals :: "Config \<Rightarrow> (unit, string, string, string, unit) externals" where
  "example_externals cfg =
     \<lparr>ParseFlags = (\<lambda>args. Inr cfg),
      ValidateConfig = (\<lambda>c. None),
      ParseLevel = (\<lambda>level. None),
      ByNames = (\<lambda>timeout c. Inr [''service'', ''ingress'']),
      construct = (\<lambda>new c d. (Some ''provider'', None)),
      NewInMemoryProvider = (\<lambda>c d. ''inmemory provider''),
      LoadOCIConfig = (\<lambda>file. (Some (), None)),
      InstancePrincipalConfig = (\<lambda>compartment. ()),
      setZoneCacheDuration = (\<lambda>config d. config),
      NewOCIProvider = (\<lambda>config c d. (Some ''oci provider'', None)),
      NewCachedProvider = (\<lambda>p d. p),
      NewDynamoDBRegistry = (\<lambda>p c. (Some ''dynamodb registry'', None)),
      NewNoopRegistry = (\<lambda>p. (Some ''noop registry'', None)),
      NewTXTRegistry = (\<lambda>p c. (Some ''txt registry'', None)),
      NewAWSSDRegistry = (\<lambda>p owner. (Some ''aws-sd registry'', None)),
      RunOnce = (\<lambda>ctrl. None)\<rparr>"

text \<open>For the examples: the values of the library's \<^verbatim>\<open>parseIP\<close> on four texts (an IPv4
  address, the same address written as an IPv4-mapped IPv6 address, and two IPv6
  addresses), and no address for any other text.\<close>

definition parseIP_table :: "string \<Rightarrow> addr16 option" where
  "parseIP_table s =
     (if s = ''1.2.3.4'' \<or> s = ''::ffff:1.2.3.4'' then
        Some (\<lambda>i. [0, 0, 0, 0, 0, 0, 0, 0, 0, 0, 0xff, 0xff, 1, 2, 3, 4] ! i)
      else if s = ''::1'' then
        Some (\<lambda>i. [0, 0, 0, 0, 0, 0, 0, 0, 0, 0, 0, 0, 0, 0, 0, 1] ! i)
      else if s = ''2001:db8::1'' then
        Some (\<lambda>i. [0x20, 0x01, 0x0d, 0xb8, 0, 0, 0, 0, 0, 0, 0, 0, 0, 0, 0, 1] ! i)
      else None)"

section \<open>What ``trailing dot removed'' means\<close>

text \<open>The words of the specification, independent of the code: a name that ends in a
  period loses that one period, any other name is unchanged.\<close>

definition without_trailing_dot :: "string \<Rightarrow> string" where
  "without_trailing_dot s = (if s \<noteq> [] \<and> last s = CHR ''.'' then butlast s else s)"

section \<open>The NS1 provider: building a record, and retries\<close>

text \<open>
  The provider itself (\<^verbatim>\<open>provider/ns1\<close>) is not among the sources; its test file is.
  The structs are as the tests fill them: of \<^verbatim>\<open>NS1Provider\<close> the numeric fields (a
  duration is its number of nanoseconds), an \<^verbatim>\<open>ns1Change\<close>, and of the \<^verbatim>\<open>dns.Record\<close> that
  is built the zone and the TTL, which the test reads.
\<close>

record NS1Provider =
  minTTLSeconds :: int
  maxRetries :: int
  initialBackoff :: int
  maxBackoff :: int

record ns1Change =
  Action :: string
  Endpoint :: Endpoint

record dnsRecord =
  Zone :: string
  TTL :: int

text \<open>Modelled from the spec: \<^verbatim>\<open>TTL.IsConfigured\<close> of package \<^verbatim>\<open>endpoint\<close>, which is not
  among the sources. The TTL of an endpoint is ``optional; absence means let the provider
  choose''; an absent TTL is the zero value of the field, and a TTL that is set is a
  positive number of seconds.\<close>

definition IsConfigured :: "TTL \<Rightarrow> bool" where
  "IsConfigured ttl = (0 < ttl)"

text \<open>Modelled from the spec: \<^verbatim>\<open>NS1Provider.ns1BuildRecord\<close>, which is not among the
  sources. Scenario D: ``TTL unset in desired, default-TTL = 300 configured: synthesized
  record TTL = 300; TTL explicitly set to 3600 in desired: synthesized record TTL =
  3600''. The configured default is the field \<open>minTTLSeconds\<close>, as the test sets it.\<close>

definition ns1BuildRecord :: "NS1Provider \<Rightarrow> string \<Rightarrow> ns1Change \<Rightarrow> dnsRecord" where
  "ns1BuildRecord p zoneName change =
     \<lparr>Zone = zoneName,
      TTL = (if IsConfigured (RecordTTL (Endpoint change))
             then RecordTTL (Endpoint change) else minTTLSeconds p)\<rparr>"

text \<open>
  The client of the retry tests, \<^verbatim>\<open>MockNS1RateLimitAndRetry\<close>, from the test file. A call
  of \<^verbatim>\<open>CreateRecord\<close> with a record \<open>r\<close> changes the client \<open>m\<close> (it counts the attempt) and
  returns a response and an error; the client after the call is returned with them.
\<close>

record Response =
  StatusCode :: int

definition StatusTooManyRequests :: int where
  "StatusTooManyRequests = 429"




text \<open>Modelled from the spec: the retryable condition of the retry wrapper, which is not
  among the sources: ``rate-limit / throttling signaled by the provider, detected by
  status code''.\<close>

definition retryable :: "Response option \<Rightarrow> bool" where
  "retryable resp =
     (case resp of Some r \<Rightarrow> StatusCode r = StatusTooManyRequests | None \<Rightarrow> False)"

text \<open>
  Modelled from the spec: the retry wrapper of the provider's record mutations, which is
  not among the sources. ``Parameters: \<open>maxRetries\<close> (attempt budget, attempt 1 counts),
  \<open>initialBackoff\<close>, \<open>maxBackoff\<close>. Algorithm: attempt the call; if it fails with a retryable
  condition, sleep for \<open>min(initialBackoff * 2^(attempt-1), maxBackoff)\<close> and retry; any
  non-retryable error fails immediately without consuming further attempts; after
  \<open>maxRetries\<close> failed attempts, return the last error.''

  \<open>mutation\<close> is the call on the client, \<open>attempt\<close> the number of the attempt that is made
  next (the first is attempt 1). The state is the client and the list of the sleeps so
  far; the result is the state after the last attempt, and the error (\<open>None\<close> for
  success).
\<close>

function withRetry ::
  "NS1Provider \<Rightarrow> ('c \<Rightarrow> 'c \<times> Response option \<times> error option) \<Rightarrow> nat \<Rightarrow> 'c \<times> int list \<Rightarrow>
   ('c \<times> int list) \<times> error option" where
  "withRetry p mutation attempt (client, slept) =
     (case mutation client of
        (client', resp, None) \<Rightarrow> ((client', slept), None)
      | (client', resp, Some err) \<Rightarrow>
          if retryable resp then
            (if maxRetries p \<le> int attempt then ((client', slept), Some err)
             else withRetry p mutation (Suc attempt)
                    (client', slept @ [min (initialBackoff p * 2 ^ (attempt - 1)) (maxBackoff p)]))
          else ((client', slept), Some err))"
  by pat_completeness auto
termination
  by (relation "measure (\<lambda>(p, mutation, attempt, st). nat (maxRetries p) - attempt)") auto

text \<open>One record mutation under the wrapper: the attempts start at 1, nothing slept.\<close>

definition retried ::
  "NS1Provider \<Rightarrow> ('c \<Rightarrow> 'c \<times> Response option \<times> error option) \<Rightarrow> 'c \<Rightarrow>
   ('c \<times> int list) \<times> error option" where
  "retried p mutation client = withRetry p mutation 1 (client, [])"

text \<open>
  To count the attempts of any mutation, whatever its client, the client is paired with
  a counter: \<open>counted mutation\<close> is \<open>mutation\<close> on the client, and adds one to the counter
  at every call. \<open>attemptsOf\<close> reads the counter from the result of the wrapper, and
  \<open>errorOf\<close> the error that the wrapper returns.
\<close>

definition counted ::
  "('c \<Rightarrow> 'c \<times> Response option \<times> error option) \<Rightarrow> nat \<times> 'c \<Rightarrow>
   (nat \<times> 'c) \<times> Response option \<times> error option" where
  "counted mutation st =
     (case mutation (snd st) of (client', resp, err) \<Rightarrow> ((Suc (fst st), client'), resp, err))"

definition attemptsOf :: "((nat \<times> 'c) \<times> int list) \<times> error option \<Rightarrow> nat" where
  "attemptsOf run = fst (fst (fst run))"

definition errorOf :: "((nat \<times> 'c) \<times> int list) \<times> error option \<Rightarrow> error option" where
  "errorOf run = snd run"

section \<open>The planner, as the specification describes it\<close>

text \<open>
  Package \<^verbatim>\<open>plan\<close> is not among the sources. This section is the planner of section 4.1
  of the specification, step by step, on the endpoints of the data model of its section 3.
\<close>
























section \<open>Properties of the source layer\<close>

lemma HasSuffix_dot: "HasSuffix s ''.'' \<longleftrightarrow> s \<noteq> [] \<and> last s = CHR ''.''"
  by (cases s rule: rev_cases) (simp_all add: HasSuffix_def)

lemma TrimSuffix_dot: "TrimSuffix s ''.'' = without_trailing_dot s"
  by (cases s rule: rev_cases) (simp_all add: TrimSuffix_def HasSuffix_dot without_trailing_dot_def)

lemma appendTrimmed_map:
  "appendTrimmed targets targetsList = targets @ map (\<lambda>h. TrimSuffix h ''.'') targetsList"
  by (induction targetsList arbitrary: targets) simp_all

text \<open>The loop sorts every target into at most one of the three lists, by two tests on
  the target alone.\<close>

lemma sortTargets_filter:
  "sortTargets parseIP isIPv6String targets (a, b, c) =
     (a @ filter (\<lambda>t. suitableType parseIP t = RecordTypeA \<and> \<not> isIPv6String t) targets,
      b @ filter (\<lambda>t. suitableType parseIP t \<noteq> RecordTypeA \<and>
                       suitableType parseIP t = RecordTypeAAAA \<and> isIPv6String t) targets,
      c @ filter (\<lambda>t. suitableType parseIP t \<noteq> RecordTypeA \<and>
                       suitableType parseIP t \<noteq> RecordTypeAAAA) targets)"
  by (induction targets arbitrary: a b c) simp_all

lemma slice16_bytes:
  "slice16 addr =
     [addr 0, addr 1, addr 2, addr 3, addr 4, addr 5, addr 6, addr 7,
      addr 8, addr 9, addr 10, addr 11, addr 12, addr 13, addr 14, addr 15]"
  by (simp add: slice16_def upt_rec eval_nat_numeral)

lemma length_slice16: "length (slice16 addr) = 16"
  by (simp add: slice16_def)

lemma To16_slice16: "To16 (slice16 addr) \<noteq> None"
  by (simp add: To16_def length_slice16 IPv4len_def IPv6len_def)

lemma RecordType_distinct:
  "RecordTypeA \<noteq> RecordTypeAAAA" "RecordTypeA \<noteq> RecordTypeCNAME"
  "RecordTypeAAAA \<noteq> RecordTypeCNAME"
  by (simp_all add: RecordTypeA_def RecordTypeAAAA_def RecordTypeCNAME_def)

lemma suitableType_table:
  "suitableType parseIP_table ''1.2.3.4'' = RecordTypeA"
  "suitableType parseIP_table ''::ffff:1.2.3.4'' = RecordTypeA"
  "suitableType parseIP_table ''::1'' = RecordTypeAAAA"
  "suitableType parseIP_table ''2001:db8::1'' = RecordTypeAAAA"
  "suitableType parseIP_table ''lb.example.com'' = RecordTypeCNAME"
  by (simp_all add: suitableType_def ParseIP_def parseIP_table_def slice16_bytes To4_def To16_def
        IPv4len_def IPv6len_def isZeros_def)


lemma endpointsForHostname_DNSName:
  "ep \<in> set (endpointsForHostname parseIP isIPv6String NewLabels hostname targets ttl
       providerSpecific setIdentifier) \<Longrightarrow> DNSName ep = TrimSuffix hostname ''.''"
  by (auto simp: endpointsForHostname_def sortTargets_filter split: if_splits)

text \<open>
  Claim C7. Trailing dots are normalized away from DNS names at the source layer: every
  endpoint that \<open>endpointsForHostname\<close> returns has as its \<open>DNSName\<close> the input hostname
  with its trailing dot removed, and the targets that \<open>getTargetsFromTargetAnnotation\<close>
  parses are the comma-separated pieces of the annotation (spaces removed), each with its
  trailing dot trimmed. An absent or empty annotation gives no targets.
\<close>

theorem trailing_dot_normalized:
  "(\<forall>ep \<in> set (endpointsForHostname parseIP isIPv6String NewLabels hostname targets ttl
        providerSpecific setIdentifier).
      DNSName ep = without_trailing_dot hostname) \<and>
   getTargetsFromTargetAnnotation targetAnnotationKey annotations =
     (case annotations targetAnnotationKey of
        None \<Rightarrow> []
      | Some targetAnnotation \<Rightarrow>
          if targetAnnotation = [] then []
          else map without_trailing_dot (Split_comma (Replace_spaces targetAnnotation)))"
proof
  show "\<forall>ep \<in> set (endpointsForHostname parseIP isIPv6String NewLabels hostname targets ttl
        providerSpecific setIdentifier). DNSName ep = without_trailing_dot hostname"
    using endpointsForHostname_DNSName by (simp add: TrimSuffix_dot)
next
  have "(\<lambda>h. TrimSuffix h ''.'') = without_trailing_dot"
    by (rule ext) (rule TrimSuffix_dot)
  then show "getTargetsFromTargetAnnotation targetAnnotationKey annotations =
     (case annotations targetAnnotationKey of
        None \<Rightarrow> []
      | Some targetAnnotation \<Rightarrow>
          if targetAnnotation = [] then []
          else map without_trailing_dot (Split_comma (Replace_spaces targetAnnotation)))"
    by (simp add: getTargetsFromTargetAnnotation_def appendTrimmed_map split: option.splits)
qed

text \<open>The theorem at a hostname and an annotation that both carry a trailing dot; here
  \<open>isIPv6String\<close> is the test for a colon in the text.\<close>

theorem trailing_dot_normalized_witness:
  "map DNSName (endpointsForHostname parseIP_table (\<lambda>s. CHR '':'' \<in> set s) []
      ''app.example.org.'' [''1.2.3.4'', ''lb.example.com''] 300 [] []) =
     [''app.example.org'', ''app.example.org''] \<and>
   getTargetsFromTargetAnnotation ''target'' [''target'' \<mapsto> ''lb.example.com., 1.2.3.4''] =
     [''lb.example.com'', ''1.2.3.4'']"
  using trailing_dot_normalized [of parseIP_table "\<lambda>s. CHR '':'' \<in> set s" "[]"
      "''app.example.org.''" "[''1.2.3.4'', ''lb.example.com'']" 300 "[]" "[]"
      "''target''" "[''target'' \<mapsto> ''lb.example.com., 1.2.3.4'']"]
  by (simp add: endpointsForHostname_def suitableType_table RecordTypeA_def RecordTypeAAAA_def
        RecordTypeCNAME_def TrimSuffix_dot without_trailing_dot_def Replace_spaces_def)

text \<open>
  Claim C8. For every target string \<open>t\<close>, \<open>suitableType\<close> returns \<open>A\<close> if \<open>t\<close> parses as
  an IP address that has a 4-byte form (\<open>To4\<close> is not \<open>nil\<close>), \<open>AAAA\<close> if \<open>t\<close> parses as an IP
  address that has none, and \<open>CNAME\<close> if \<open>t\<close> does not parse as an IP address. (An address
  that \<open>ParseIP\<close> returns is sixteen bytes long, so its \<open>To16\<close> is never \<open>nil\<close>.)
\<close>

theorem suitableType_by_parse:
  "suitableType parseIP t =
     (case ParseIP parseIP t of
        None \<Rightarrow> RecordTypeCNAME
      | Some ip \<Rightarrow> if To4 ip \<noteq> None then RecordTypeA else RecordTypeAAAA)
   \<and> RecordTypeA = ''A'' \<and> RecordTypeAAAA = ''AAAA'' \<and> RecordTypeCNAME = ''CNAME''"
proof -
  have "suitableType parseIP t =
     (case ParseIP parseIP t of
        None \<Rightarrow> RecordTypeCNAME
      | Some ip \<Rightarrow> if To4 ip \<noteq> None then RecordTypeA else RecordTypeAAAA)"
  proof (cases "parseIP t")
    case None
    then show ?thesis by (simp add: suitableType_def ParseIP_def)
  next
    case (Some addr)
    then have "ParseIP parseIP t = Some (slice16 addr)" by (simp add: ParseIP_def)
    then show ?thesis using To16_slice16 [of addr] by (simp add: suitableType_def)
  qed
  then show ?thesis by (simp add: RecordTypeA_def RecordTypeAAAA_def RecordTypeCNAME_def)
qed

text \<open>The endpoints are built from the three sorted lists, one endpoint for each list
  that is not empty.\<close>

lemma endpointsForHostname_eq:
  "endpointsForHostname parseIP isIPv6String NewLabels hostname targets ttl providerSpecific
     setIdentifier =
     concat (map (\<lambda>(rt, ts). if ts = [] then [] else
         [\<lparr>DNSName = TrimSuffix hostname ''.'', Targets = ts, RecordType = rt,
           SetIdentifier = setIdentifier, RecordTTL = ttl, Labels = NewLabels,
           ProviderSpecific = providerSpecific\<rparr>])
       [(RecordTypeA,
         filter (\<lambda>t. suitableType parseIP t = RecordTypeA \<and> \<not> isIPv6String t) targets),
        (RecordTypeAAAA,
         filter (\<lambda>t. suitableType parseIP t \<noteq> RecordTypeA \<and>
                      suitableType parseIP t = RecordTypeAAAA \<and> isIPv6String t) targets),
        (RecordTypeCNAME,
         filter (\<lambda>t. suitableType parseIP t \<noteq> RecordTypeA \<and>
                      suitableType parseIP t \<noteq> RecordTypeAAAA) targets)])"
  by (simp add: endpointsForHostname_def sortTargets_filter)

text \<open>
  Claim C9. For every hostname, target list, TTL, provider-specific properties and set
  identifier, \<open>endpointsForHostname\<close> returns at most three endpoints, at most one each of
  the record types A, AAAA and CNAME, each with a target list that is not empty and with the
  TTL, the provider-specific properties and the set identifier that were passed in; and a
  target whose \<open>suitableType\<close> is A but whose text is IPv6 by \<open>isIPv6String\<close> (or whose
  \<open>suitableType\<close> is AAAA but whose text is not IPv6) is dropped: it is a target of no
  returned endpoint.
\<close>

theorem endpointsForHostname_shape:
  "(let endpoints = endpointsForHostname parseIP isIPv6String NewLabels hostname targets ttl
       providerSpecific setIdentifier in
    length endpoints \<le> 3 \<and>
    distinct (map RecordType endpoints) \<and>
    set (map RecordType endpoints) \<subseteq> {RecordTypeA, RecordTypeAAAA, RecordTypeCNAME} \<and>
    (\<forall>ep \<in> set endpoints.
        Targets ep \<noteq> [] \<and> RecordTTL ep = ttl \<and> ProviderSpecific ep = providerSpecific \<and>
        SetIdentifier ep = setIdentifier) \<and>
    (\<forall>t. suitableType parseIP t = RecordTypeA \<and> isIPv6String t \<or>
         suitableType parseIP t = RecordTypeAAAA \<and> \<not> isIPv6String t \<longrightarrow>
         (\<forall>ep \<in> set endpoints. t \<notin> set (Targets ep))))"
  unfolding Let_def endpointsForHostname_eq
  using RecordType_distinct by (auto split: if_splits)

text \<open>The theorem at five targets, one of them an IPv4-mapped IPv6 address: its
  \<open>suitableType\<close> is A, its text has a colon, and it is dropped.\<close>

theorem endpointsForHostname_shape_witness:
  "map (\<lambda>ep. (RecordType ep, Targets ep))
     (endpointsForHostname parseIP_table (\<lambda>s. CHR '':'' \<in> set s) []
        ''app.example.org.''
        [''1.2.3.4'', ''::ffff:1.2.3.4'', ''2001:db8::1'', ''lb.example.com'', ''::1''] 300 [] []) =
     [(''A'', [''1.2.3.4'']), (''AAAA'', [''2001:db8::1'', ''::1'']),
      (''CNAME'', [''lb.example.com''])]"
  using endpointsForHostname_shape [of parseIP_table "\<lambda>s. CHR '':'' \<in> set s" "[]"
      "''app.example.org.''"
      "[''1.2.3.4'', ''::ffff:1.2.3.4'', ''2001:db8::1'', ''lb.example.com'', ''::1'']" 300 "[]" "[]"]
  by (simp add: endpointsForHostname_def suitableType_table RecordTypeA_def RecordTypeAAAA_def
        RecordTypeCNAME_def)


section \<open>Properties of the start-up code\<close>

text \<open>\<^verbatim>\<open>buildProvider\<close> changes the configuration in one case only.\<close>

lemma providerSwitch_cfg:
  "providerSwitch ext cfg df = Returns (cfg', p, err) \<Longrightarrow>
     cfg' = (if Provider cfg = ''aws-sd'' \<and> Registry cfg \<noteq> ''noop'' \<and> Registry cfg \<noteq> ''aws-sd''
             then cfg\<lparr>Registry := ''aws-sd''\<rparr> else cfg)"
  by (auto simp: providerSwitch_def Let_def split: if_splits option.splits prod.splits)

lemma buildProvider_cfg:
  "buildProvider ext cfg df = Returns (cfg', p, err) \<Longrightarrow>
     cfg' = (if Provider cfg = ''aws-sd'' \<and> Registry cfg \<noteq> ''noop'' \<and> Registry cfg \<noteq> ''aws-sd''
             then cfg\<lparr>Registry := ''aws-sd''\<rparr> else cfg)"
  unfolding buildProvider_def
  by (auto split: run.splits prod.splits option.splits if_splits dest: providerSwitch_cfg)

lemma buildProvider_awssd:
  assumes "Provider cfg = ''aws-sd''"
  shows "\<exists>p err. buildProvider ext cfg df =
           Returns (if Registry cfg \<noteq> ''noop'' \<and> Registry cfg \<noteq> ''aws-sd''
                    then cfg\<lparr>Registry := ''aws-sd''\<rparr> else cfg, p, err)"
  using assms
  by (cases "construct ext NewAWSSDProvider (cfg\<lparr>Registry := ''aws-sd''\<rparr>) df";
      cases "construct ext NewAWSSDProvider cfg df")
     (auto simp: buildProvider_def providerSwitch_def Let_def split: option.splits)

lemma startup_cfg:
  assumes "startup ext args = Returns (Inr (cfg', src, p, df))"
    and "ParseFlags ext args = Inr cfg"
  shows "cfg' = (if Provider cfg = ''aws-sd'' \<and> Registry cfg \<noteq> ''noop'' \<and> Registry cfg \<noteq> ''aws-sd''
             then cfg\<lparr>Registry := ''aws-sd''\<rparr> else cfg)"
  using assms unfolding startup_def
  by (auto split: sum.splits option.splits run.splits prod.splits if_splits
      dest: buildProvider_cfg)

lemma startup_ended:
  assumes "startup ext args = Returns (Inl ended)"
  shows "ended = ServedWebhook"
  using assms unfolding startup_def
  by (auto split: sum.splits option.splits run.splits prod.splits if_splits)

lemma Policies_None:
  "Policies name = None \<longleftrightarrow> name \<notin> {''sync'', ''upsert-only'', ''create-only''}"
  by (simp add: Policies_def)

text \<open>
  Claim C10. When the configured provider is \<open>aws-sd\<close> and the configured registry is
  neither \<open>noop\<close> nor \<open>aws-sd\<close>, \<open>buildProvider\<close> returns with the registry of the
  configuration overwritten to \<open>aws-sd\<close>; on that configuration \<open>selectRegistry\<close> takes the
  case of the AWS-SD registry (it returns what \<open>NewAWSSDRegistry\<close> returns), and that is
  the configuration \<open>Execute\<close> has whenever it goes on to build the controller.
\<close>

theorem awssd_forces_awssd_registry:
  assumes "Provider cfg = ''aws-sd''" and "Registry cfg \<noteq> ''noop''"
    and "Registry cfg \<noteq> ''aws-sd''"
  shows "(\<exists>p err. buildProvider ext cfg df = Returns (cfg\<lparr>Registry := ''aws-sd''\<rparr>, p, err)) \<and>
         (\<forall>p. selectRegistry ext (cfg\<lparr>Registry := ''aws-sd''\<rparr>) p =
               Returns (NewAWSSDRegistry ext p (TXTOwnerID cfg))) \<and>
         (\<forall>args cfg' src p df'.
             ParseFlags ext args = Inr cfg \<and>
             startup ext args = Returns (Inr (cfg', src, p, df')) \<longrightarrow>
             cfg' = cfg\<lparr>Registry := ''aws-sd''\<rparr>)"
proof (intro conjI allI impI)
  show "\<exists>p err. buildProvider ext cfg df = Returns (cfg\<lparr>Registry := ''aws-sd''\<rparr>, p, err)"
    using buildProvider_awssd [OF assms(1), of ext df] assms(2,3) by simp
next
  fix p
  show "selectRegistry ext (cfg\<lparr>Registry := ''aws-sd''\<rparr>) p =
          Returns (NewAWSSDRegistry ext p (TXTOwnerID cfg))"
    by (simp add: selectRegistry_def)
next
  fix args cfg' src p df'
  assume "ParseFlags ext args = Inr cfg \<and>
          startup ext args = Returns (Inr (cfg', src, p, df'))"
  then show "cfg' = cfg\<lparr>Registry := ''aws-sd''\<rparr>"
    using startup_cfg [of ext args cfg' src p df' cfg] assms by simp
qed

text \<open>The theorem at the example configuration (provider \<open>aws-sd\<close>, registry \<open>txt\<close>): the
  controller that \<open>Execute\<close> runs has the registry that \<open>NewAWSSDRegistry\<close> returned.\<close>

theorem awssd_forces_awssd_registry_witness:
  "buildProvider (example_externals example_cfg) example_cfg (createDomainFilter example_cfg) =
     Returns (example_cfg\<lparr>Registry := ''aws-sd''\<rparr>, Some ''provider'', None) \<and>
   selectRegistry (example_externals example_cfg) (example_cfg\<lparr>Registry := ''aws-sd''\<rparr>)
     (Some ''provider'') = Returns (Some ''aws-sd registry'', None) \<and>
   (case Execute (example_externals example_cfg) [] of
      Returns (RanLoop ctrl handler) \<Rightarrow> Controller.Registry ctrl
    | _ \<Rightarrow> None) = Some ''aws-sd registry''"
  using awssd_forces_awssd_registry [of example_cfg "example_externals example_cfg"
      "createDomainFilter example_cfg"]
  by (simp add: example_cfg_def example_externals_def buildProvider_def providerSwitch_def
        selectRegistry_def Execute_def startup_def buildController_def buildSource_def
        configureLogger_def createDomainFilter_def Policies_def)

text \<open>
  Claim C5. For every configured policy name that is not one of \<open>sync\<close>, \<open>upsert-only\<close> and
  \<open>create-only\<close>, controller construction fails at start-up: \<open>buildController\<close> returns the
  error \<open>unknown policy: <name>\<close>, and \<open>Execute\<close>, whenever it comes to build the controller,
  ends the process through \<^verbatim>\<open>log.Fatal\<close> with that error. The error never surfaces in a
  reconciliation: with such a policy \<open>Execute\<close> neither runs the loop nor a single
  reconciliation (what is left is a fatal end earlier in the start-up, or the webhook
  server mode, which builds no controller).
\<close>

theorem unknown_policy_fatal_at_startup:
  assumes "Policy cfg \<notin> {''sync'', ''upsert-only'', ''create-only''}"
  shows "buildController ext cfg src p filter' =
           Returns (Inl (''unknown policy: '' @ Policy cfg)) \<and>
    (\<forall>args. ParseFlags ext args = Inr cfg \<longrightarrow>
       (\<forall>reached. startup ext args = Returns (Inr reached) \<longrightarrow>
          Execute ext args = Fatal (''unknown policy: '' @ Policy cfg)) \<and>
       (\<forall>ctrl handler. Execute ext args \<noteq> Returns (RanLoop ctrl handler)) \<and>
       Execute ext args \<noteq> Returns RanOnce)"
proof (intro conjI allI impI)
  have unknown: "\<And>c. Policy c = Policy cfg \<Longrightarrow> Policies (Policy c) = None"
    using assms by (simp add: Policies_None)
  show "buildController ext cfg src p filter' =
          Returns (Inl (''unknown policy: '' @ Policy cfg))"
    by (simp add: buildController_def unknown)
  fix args
  assume parsed: "ParseFlags ext args = Inr cfg"
  have reached: "Execute ext args = Fatal (''unknown policy: '' @ Policy cfg)"
    if "startup ext args = Returns (Inr reached)" for reached
  proof -
    obtain cfg' s q d where r: "reached = (cfg', s, q, d)" by (cases reached)
    have "Policy cfg' = Policy cfg"
      using startup_cfg [of ext args cfg' s q d cfg] that parsed r by (simp split: if_splits)
    then show ?thesis using that r by (simp add: Execute_def buildController_def unknown)
  qed
  show "Execute ext args = Fatal (''unknown policy: '' @ Policy cfg)"
    if "startup ext args = Returns (Inr reached)" for reached
    using reached that .
  have ends: "Execute ext args = Returns e \<Longrightarrow> e = ServedWebhook" for e
  proof (cases "startup ext args")
    case (Returns x)
    assume e: "Execute ext args = Returns e"
    show ?thesis
    proof (cases x)
      case (Inl ended)
      with Returns e have "e = ended" by (simp add: Execute_def)
      with Returns Inl startup_ended [of ext args ended] show ?thesis by simp
    next
      case (Inr r)
      with Returns reached e show ?thesis by simp
    qed
  qed (simp_all add: Execute_def)
  show "Execute ext args \<noteq> Returns (RanLoop ctrl handler)" for ctrl handler
    using ends [of "RanLoop ctrl handler"] by auto
  show "Execute ext args \<noteq> Returns RanOnce"
    using ends [of RanOnce] by auto
qed

text \<open>The theorem at the example configuration with the policy \<open>bogus\<close>, where every step
  before the controller succeeds.\<close>

theorem unknown_policy_fatal_at_startup_witness:
  "buildController (example_externals (example_cfg\<lparr>Policy := ''bogus''\<rparr>))
     (example_cfg\<lparr>Policy := ''bogus''\<rparr>) (NewMultiSource []) None
     (createDomainFilter example_cfg) = Returns (Inl ''unknown policy: bogus'') \<and>
   Execute (example_externals (example_cfg\<lparr>Policy := ''bogus''\<rparr>)) [] =
     Fatal ''unknown policy: bogus''"
  using unknown_policy_fatal_at_startup [of "example_cfg\<lparr>Policy := ''bogus''\<rparr>"
      "example_externals (example_cfg\<lparr>Policy := ''bogus''\<rparr>)" "NewMultiSource []" None
      "createDomainFilter example_cfg"]
  by (simp add: example_cfg_def example_externals_def buildProvider_def providerSwitch_def
        selectRegistry_def Execute_def startup_def buildController_def buildSource_def
        configureLogger_def createDomainFilter_def Policies_def)

section \<open>Properties of the event handlers\<close>

lemma notify_call: "notify fn ev = call fn"
  by (cases ev) (simp_all add: notify_def OnAdd_def OnUpdate_def OnDelete_def)

lemma fold_notify:
  "fold (notify fn) evs (n, w) = (n + length evs, (fn ^^ length evs) w)"
proof (induction evs arbitrary: n w)
  case Nil
  then show ?case by simp
next
  case (Cons ev evs)
  then show ?case by (simp add: notify_call call_def funpow_swap1)
qed

text \<open>
  Claim C6. For every observed change of a source, an addition (an object of the initial
  list included), an update or a deletion, the subscribed function is invoked: each of
  \<open>OnAdd\<close>, \<open>OnUpdate\<close> and \<open>OnDelete\<close> of an \<open>eventHandlerFunc\<close> calls the wrapped function
  exactly once (the counter of calls goes up by one, the state is that after one run of
  the function), whatever the objects are, so that after any sequence of changes the
  function has been called once for each. It is given no payload: the result does not
  depend on the change.
\<close>

theorem eventHandlerFunc_calls_once:
  "OnAdd fn obj isInInitialList (n, w) = (n + 1, fn w) \<and>
   OnUpdate fn oldObj newObj (n, w) = (n + 1, fn w) \<and>
   OnDelete fn obj (n, w) = (n + 1, fn w) \<and>
   notify fn ev (n, w) = (n + 1, fn w) \<and>
   fold (notify fn) evs (n, w) = (n + length evs, (fn ^^ length evs) w)"
  by (simp add: fold_notify notify_call OnAdd_def OnUpdate_def OnDelete_def call_def)


section \<open>Properties of the NS1 provider as specified\<close>

text \<open>
  Claim C4. When a record is built from an endpoint whose TTL is unset and a default TTL
  of 300 is configured, the TTL of the synthesized record is 300; when the TTL of the
  endpoint is set to 3600, the TTL of the synthesized record is 3600. (Whatever the other
  fields of the provider, the zone, the change and the endpoint are.)
\<close>

theorem ns1BuildRecord_ttl:
  "TTL (ns1BuildRecord (p\<lparr>minTTLSeconds := 300\<rparr>) zoneName
          (change\<lparr>Endpoint := ep\<lparr>RecordTTL := 0\<rparr>\<rparr>)) = 300 \<and>
   TTL (ns1BuildRecord (p\<lparr>minTTLSeconds := 300\<rparr>) zoneName
          (change\<lparr>Endpoint := ep\<lparr>RecordTTL := 3600\<rparr>\<rparr>)) = 3600"
  by (simp add: ns1BuildRecord_def IsConfigured_def)






text \<open>
  The specification does not say what a budget below 1 is to mean: its algorithm begins
  with an attempt, and that attempt counts against the budget. In the wrapper as it is
  modelled here the first attempt is made all the same and its error is returned; the
  theorem above does not speak of such budgets.
\<close>

lemma retried_budget_below_one:
  assumes "maxRetries p < 1" and "snd (snd (mutation client)) \<noteq> None"
    and "retryable (fst (snd (mutation client)))"
  shows "attemptsOf (retried p (counted mutation) (0, client)) = 1 \<and>
         errorOf (retried p (counted mutation) (0, client)) \<noteq> None"
  using assms
  by (cases "mutation client") (auto simp: retried_def counted_def attemptsOf_def errorOf_def)


section \<open>Properties of the planner as specified\<close>

subsection \<open>The index\<close>































subsection \<open>Ownership\<close>






subsection \<open>The planner on an example\<close>





end
